theory Spec2Isabelle
  imports Complex_Main
begin

section \<open>Homogeneous transforms of the dump-truck scene\<close>

text \<open>
  The scripts \<^verbatim>\<open>Proyecto_Borrador/second.py\<close> and
  \<^verbatim>\<open>Proyecto_Borrador/Buck_Up/Posicion_Inicail.py\<close> place seven STL meshes with
  4x4 homogeneous matrices and animate two of them.

  Numbers: the source computes in NumPy \<^verbatim>\<open>float64\<close>. Here a scalar is a
  \<^typ>\<open>real\<close>, so every statement below is about exact arithmetic; rounding is not
  modelled. Of \<open>cos\<close> and \<open>sin\<close> the statements use the values at the angle 0 only.
  Nothing below rests on \<open>cos\<^sup>2 + sin\<^sup>2 = 1\<close>: the rounded values that
  \<^verbatim>\<open>np.cos\<close> and \<^verbatim>\<open>np.sin\<close> return satisfy it only up to rounding, so whether a
  matrix of the program is exactly orthonormal is not a question this model can decide.

  Arrays: every matrix of the program is born in \<^verbatim>\<open>np.identity(4)\<close> and is
  therefore of shape (4, 4). A matrix is a tuple of four rows of four scalars, written
  as NumPy prints it; a vector of shape (3,) is a triple.
\<close>

type_synonym vec3 = "real \<times> real \<times> real"
type_synonym vec4 = "real \<times> real \<times> real \<times> real"
type_synonym mat4 = "vec4 \<times> vec4 \<times> vec4 \<times> vec4"

subsection \<open>The NumPy operations the scripts use\<close>

text \<open>\<^verbatim>\<open>np.identity(4)\<close>\<close>

definition identity4 :: mat4 where
  "identity4 = ((1, 0, 0, 0),
                (0, 1, 0, 0),
                (0, 0, 1, 0),
                (0, 0, 0, 1))"

text \<open>
  The four slice assignments of the source. Each writes the named entries and keeps
  every other entry of the matrix.
  \<^item> \<^verbatim>\<open>matrix[0:3, 3] = [tx, ty, tz]\<close>: rows 0, 1, 2 of column 3;
  \<^item> \<^verbatim>\<open>matrix[1:3, 1:3] = [[a, b], [c, d]]\<close>: rows 1, 2 and columns 1, 2;
  \<^item> \<^verbatim>\<open>matrix[0:3:2, 0:3:2] = [[a, b], [c, d]]\<close>: rows 0, 2 and columns 0, 2;
  \<^item> \<^verbatim>\<open>matrix[0:2, 0:2] = [[a, b], [c, d]]\<close>: rows 0, 1 and columns 0, 1.
\<close>

fun set_0_3__3 :: "mat4 \<Rightarrow> vec3 \<Rightarrow> mat4" where
  "set_0_3__3 ((m00, m01, m02, m03),
               (m10, m11, m12, m13),
               (m20, m21, m22, m23),
               (m30, m31, m32, m33)) (tx, ty, tz) =
     ((m00, m01, m02, tx),
      (m10, m11, m12, ty),
      (m20, m21, m22, tz),
      (m30, m31, m32, m33))"

fun set_1_3__1_3 :: "mat4 \<Rightarrow> (real \<times> real) \<times> (real \<times> real) \<Rightarrow> mat4" where
  "set_1_3__1_3 ((m00, m01, m02, m03),
                 (m10, m11, m12, m13),
                 (m20, m21, m22, m23),
                 (m30, m31, m32, m33)) ((a, b), (c, d)) =
     ((m00, m01, m02, m03),
      (m10, a,   b,   m13),
      (m20, c,   d,   m23),
      (m30, m31, m32, m33))"

fun set_0_3_2__0_3_2 :: "mat4 \<Rightarrow> (real \<times> real) \<times> (real \<times> real) \<Rightarrow> mat4" where
  "set_0_3_2__0_3_2 ((m00, m01, m02, m03),
                     (m10, m11, m12, m13),
                     (m20, m21, m22, m23),
                     (m30, m31, m32, m33)) ((a, b), (c, d)) =
     ((a,   m01, b,   m03),
      (m10, m11, m12, m13),
      (c,   m21, d,   m23),
      (m30, m31, m32, m33))"

fun set_0_2__0_2 :: "mat4 \<Rightarrow> (real \<times> real) \<times> (real \<times> real) \<Rightarrow> mat4" where
  "set_0_2__0_2 ((m00, m01, m02, m03),
                 (m10, m11, m12, m13),
                 (m20, m21, m22, m23),
                 (m30, m31, m32, m33)) ((a, b), (c, d)) =
     ((a,   b,   m02, m03),
      (c,   d,   m12, m13),
      (m20, m21, m22, m23),
      (m30, m31, m32, m33))"

text \<open>The read \<^verbatim>\<open>matrix[:3, 3]\<close>: rows 0, 1, 2 of column 3.\<close>

fun get_0_3__3 :: "mat4 \<Rightarrow> vec3" where
  "get_0_3__3 ((m00, m01, m02, m03),
               (m10, m11, m12, m13),
               (m20, m21, m22, m23),
               (m30, m31, m32, m33)) = (m03, m13, m23)"

text \<open>The matrix product \<^verbatim>\<open>A @ B\<close> of two arrays of shape (4, 4).\<close>

fun dot4 :: "vec4 \<Rightarrow> vec4 \<Rightarrow> real" where
  "dot4 (a0, a1, a2, a3) (b0, b1, b2, b3) = a0 * b0 + a1 * b1 + a2 * b2 + a3 * b3"

fun col0 :: "mat4 \<Rightarrow> vec4" where
  "col0 ((m00, m01, m02, m03), (m10, m11, m12, m13),
         (m20, m21, m22, m23), (m30, m31, m32, m33)) = (m00, m10, m20, m30)"

fun col1 :: "mat4 \<Rightarrow> vec4" where
  "col1 ((m00, m01, m02, m03), (m10, m11, m12, m13),
         (m20, m21, m22, m23), (m30, m31, m32, m33)) = (m01, m11, m21, m31)"

fun col2 :: "mat4 \<Rightarrow> vec4" where
  "col2 ((m00, m01, m02, m03), (m10, m11, m12, m13),
         (m20, m21, m22, m23), (m30, m31, m32, m33)) = (m02, m12, m22, m32)"

fun col3 :: "mat4 \<Rightarrow> vec4" where
  "col3 ((m00, m01, m02, m03), (m10, m11, m12, m13),
         (m20, m21, m22, m23), (m30, m31, m32, m33)) = (m03, m13, m23, m33)"

definition row_times :: "vec4 \<Rightarrow> mat4 \<Rightarrow> vec4" where
  "row_times r B = (dot4 r (col0 B), dot4 r (col1 B), dot4 r (col2 B), dot4 r (col3 B))"

fun matmul :: "mat4 \<Rightarrow> mat4 \<Rightarrow> mat4" where
  "matmul (r0, r1, r2, r3) B = (row_times r0 B, row_times r1 B, row_times r2 B, row_times r3 B)"

text \<open>\<^verbatim>\<open>np.radians\<close>: degrees to radians.\<close>

definition radians :: "real \<Rightarrow> real" where
  "radians d = d * pi / 180"

text \<open>Arithmetic on arrays of shape (3,): \<^verbatim>\<open>u + v\<close>, \<^verbatim>\<open>u - v\<close>, \<^verbatim>\<open>t * v\<close>.\<close>

fun vadd :: "vec3 \<Rightarrow> vec3 \<Rightarrow> vec3" where
  "vadd (a, b, c) (x, y, z) = (a + x, b + y, c + z)"

fun vsub :: "vec3 \<Rightarrow> vec3 \<Rightarrow> vec3" where
  "vsub (a, b, c) (x, y, z) = (a - x, b - y, c - z)"

fun smul :: "real \<Rightarrow> vec3 \<Rightarrow> vec3" where
  "smul t (x, y, z) = (t * x, t * y, t * z)"

subsection \<open>The two matrix constructors\<close>

text \<open>
  \<^verbatim>\<open>create_translation_matrix\<close> and \<^verbatim>\<open>create_rotation_matrix\<close> are the same,
  line for line, in both scripts. The axis is a Python string compared with
  \<^verbatim>\<open>==\<close>; the chain of tests has no final \<^verbatim>\<open>else\<close>, so any other axis
  returns the identity matrix it started from.
\<close>

definition create_translation_matrix :: "real \<Rightarrow> real \<Rightarrow> real \<Rightarrow> mat4" where
  "create_translation_matrix tx ty tz =
     (let matrix = identity4 in set_0_3__3 matrix (tx, ty, tz))"

definition create_rotation_matrix :: "string \<Rightarrow> real \<Rightarrow> mat4" where
  "create_rotation_matrix axis angle =
     (let matrix = identity4;
          c = cos angle;
          s = sin angle
      in if axis = ''x'' then set_1_3__1_3 matrix ((c, - s), (s, c))
         else if axis = ''y'' then set_0_3_2__0_3_2 matrix ((c, s), (- s, c))
         else if axis = ''z'' then set_0_2__0_2 matrix ((c, - s), (s, c))
         else matrix)"

subsection \<open>Python exceptions\<close>

text \<open>
  The exceptions the modelled statements can raise: a dictionary subscript with a
  missing key, and the true division \<^verbatim>\<open>paso / (n_pasos - 1)\<close> of two Python
  integers by zero. \<open>InvalidPlanError\<close> is the name the specification gives to the
  failure of a one-step plan; the scripts define no such exception class, and no
  function below returns it.
\<close>

datatype error = KeyError string | ZeroDivisionError | InvalidPlanError

definition getitem :: "(string \<rightharpoonup> 'a) \<Rightarrow> string \<Rightarrow> error + 'a" where
  "getitem d k = (case d k of None \<Rightarrow> Inl (KeyError k) | Some v \<Rightarrow> Inr v)"

definition truediv :: "int \<Rightarrow> int \<Rightarrow> error + real" where
  "truediv a b = (if b = 0 then Inl ZeroDivisionError else Inr (real_of_int a / real_of_int b))"

subsection \<open>Meshes as objects\<close>

text \<open>
  A mesh of NumPy-STL is a mutable object: \<^verbatim>\<open>Mesh.transform(matrix)\<close> rewrites the
  vertices of the object it is called on. The dictionaries of the scripts hold references
  to such objects, so the model keeps a store from addresses to meshes. A mesh is the
  list of its vertices; the store is total (an address never handed out holds the empty
  mesh) and \<open>next_addr\<close> is the first address not yet handed out.

  The renderer is outside the scripts. What it is given is logged: \<open>plotted\<close> collects
  the meshes of the static scene, \<open>painted\<close> the frames of the animation, one list of
  meshes for each call of \<^verbatim>\<open>paint\<close>.
\<close>

type_synonym addr = nat
type_synonym mesh = "vec3 list"

record world =
  heap :: "addr \<Rightarrow> mesh"
  next_addr :: addr
  plotted :: "mesh list"
  painted :: "mesh list list"

text \<open>
  The effect of \<^verbatim>\<open>Mesh.transform\<close> on one vertex: the block
  \<^verbatim>\<open>matrix[0:3, 0:3]\<close> times the vertex, plus \<^verbatim>\<open>matrix[0:3, 3]\<close>. The bottom row
  of the matrix is not read.
\<close>

fun apply_point :: "mat4 \<Rightarrow> vec3 \<Rightarrow> vec3" where
  "apply_point ((m00, m01, m02, m03),
                (m10, m11, m12, m13),
                (m20, m21, m22, m23),
                (m30, m31, m32, m33)) (x, y, z) =
     (m00 * x + m01 * y + m02 * z + m03,
      m10 * x + m11 * y + m12 * z + m13,
      m20 * x + m21 * y + m22 * z + m23)"

text \<open>\<^verbatim>\<open>deepcopy(m)\<close>: a new object with the contents of \<open>m\<close>.\<close>

definition deepcopy :: "addr \<Rightarrow> world \<Rightarrow> addr \<times> world" where
  "deepcopy a w =
     (next_addr w,
      w\<lparr>heap := (heap w)(next_addr w := heap w a), next_addr := Suc (next_addr w)\<rparr>)"

text \<open>\<^verbatim>\<open>m.transform(matrix)\<close>: in place, on the object at \<open>a\<close>.\<close>

definition transform :: "addr \<Rightarrow> mat4 \<Rightarrow> world \<Rightarrow> world" where
  "transform a matrix w = w\<lparr>heap := (heap w)(a := map (apply_point matrix) (heap w a))\<rparr>"

text \<open>\<^verbatim>\<open>vpl.mesh_plot(m, color=...)\<close> in the static scene.\<close>

definition mesh_plot :: "addr \<Rightarrow> world \<Rightarrow> world" where
  "mesh_plot a w = w\<lparr>plotted := plotted w @ [heap w a]\<rparr>"

text \<open>
  \<^verbatim>\<open>paint(mallas)\<close> plots the given meshes, shows the figure, sleeps and removes the
  plots again: one frame on the screen.
\<close>

definition paint :: "addr list \<Rightarrow> world \<Rightarrow> world" where
  "paint mallas w = w\<lparr>painted := painted w @ [map (heap w) mallas]\<rparr>"

subsection \<open>The animation: \<^verbatim>\<open>mover_cubo\<close>\<close>

text \<open>
  The values the loop body computes at interpolation parameter \<open>t\<close>, under the names of
  the source's local variables. \<open>traslacion_inicial\<close> and \<open>traslacion_destino\<close> are
  computed once, before the loop.
\<close>

definition traslacion_inicial :: "mat4 \<Rightarrow> vec3" where
  "traslacion_inicial pos_inicial_contenedor = get_0_3__3 pos_inicial_contenedor"

definition traslacion_destino :: "mat4 \<Rightarrow> vec3" where
  "traslacion_destino pos_inicial_contenedor =
     vadd (traslacion_inicial pos_inicial_contenedor) (0, 0, 1.0)"

definition traslacion_actual :: "vec3 \<Rightarrow> vec3 \<Rightarrow> real \<Rightarrow> vec3" where
  "traslacion_actual inicial destino t = vadd inicial (smul t (vsub destino inicial))"

definition matriz_traslacion :: "vec3 \<Rightarrow> vec3 \<Rightarrow> real \<Rightarrow> mat4" where
  "matriz_traslacion inicial destino t =
     (case traslacion_actual inicial destino t of (tx, ty, tz) \<Rightarrow> create_translation_matrix tx ty tz)"

definition angulo_actual :: "real \<Rightarrow> real" where
  "angulo_actual t = t * radians 90"

definition matriz_rotacion :: "real \<Rightarrow> mat4" where
  "matriz_rotacion t = create_rotation_matrix ''z'' (angulo_actual t)"

definition transformacion_actual :: "vec3 \<Rightarrow> vec3 \<Rightarrow> real \<Rightarrow> mat4" where
  "transformacion_actual inicial destino t =
     matmul (matriz_traslacion inicial destino t) (matriz_rotacion t)"

text \<open>The matrix handed to the lid's copy: \<^verbatim>\<open>transformacion_actual @ pos_inicial_tapa\<close>.\<close>

definition transformacion_tapa :: "vec3 \<Rightarrow> vec3 \<Rightarrow> mat4 \<Rightarrow> real \<Rightarrow> mat4" where
  "transformacion_tapa inicial destino pos_inicial_tapa t =
     matmul (transformacion_actual inicial destino t) pos_inicial_tapa"

text \<open>
  One pass through the body of \<^verbatim>\<open>for paso in range(n_pasos)\<close>. The division comes
  first; when it raises, nothing has been copied or painted in this pass.
\<close>

definition paso_mover_cubo ::
  "addr \<Rightarrow> addr \<Rightarrow> vec3 \<Rightarrow> vec3 \<Rightarrow> mat4 \<Rightarrow> int \<Rightarrow> int \<Rightarrow> world \<Rightarrow> (error + unit) \<times> world" where
  "paso_mover_cubo contenedor tapa inicial destino pos_inicial_tapa n_pasos paso w =
     (case truediv paso (n_pasos - 1) of
        Inl e \<Rightarrow> (Inl e, w)
      | Inr t \<Rightarrow>
          (let (contenedor_copia, w1) = deepcopy contenedor w;
               w2 = transform contenedor_copia (transformacion_actual inicial destino t) w1;
               (tapa_copia, w3) = deepcopy tapa w2;
               w4 = transform tapa_copia (transformacion_tapa inicial destino pos_inicial_tapa t) w3
           in (Inr (), paint [contenedor_copia, tapa_copia] w4)))"

text \<open>The loop over the values of \<^verbatim>\<open>range(n_pasos)\<close>; an exception ends it.\<close>

fun bucle ::
  "addr \<Rightarrow> addr \<Rightarrow> vec3 \<Rightarrow> vec3 \<Rightarrow> mat4 \<Rightarrow> int \<Rightarrow> int list \<Rightarrow> world \<Rightarrow> (error + unit) \<times> world" where
  "bucle contenedor tapa inicial destino pos_inicial_tapa n_pasos [] w = (Inr (), w)"
| "bucle contenedor tapa inicial destino pos_inicial_tapa n_pasos (paso # resto) w =
     (case paso_mover_cubo contenedor tapa inicial destino pos_inicial_tapa n_pasos paso w of
        (Inl e, w') \<Rightarrow> (Inl e, w')
      | (Inr u, w') \<Rightarrow> bucle contenedor tapa inicial destino pos_inicial_tapa n_pasos resto w')"

text \<open>
  \<^verbatim>\<open>mover_cubo(lista_piezas, lista_transformaciones, n_pasos=100)\<close>. The four
  subscripts come first, in the order of the source; \<^verbatim>\<open>range(n_pasos)\<close> is the list
  \<open>[0..n_pasos - 1]\<close>, empty when \<open>n_pasos \<le> 0\<close>.
\<close>

definition mover_cubo ::
  "(string \<rightharpoonup> addr) \<Rightarrow> (string \<rightharpoonup> mat4) \<Rightarrow> int \<Rightarrow> world \<Rightarrow> (error + unit) \<times> world" where
  "mover_cubo lista_piezas lista_transformaciones n_pasos w =
     (case getitem lista_piezas ''contenedor'' of
        Inl e \<Rightarrow> (Inl e, w)
      | Inr contenedor \<Rightarrow>
     (case getitem lista_piezas ''tapa'' of
        Inl e \<Rightarrow> (Inl e, w)
      | Inr tapa \<Rightarrow>
     (case getitem lista_transformaciones ''contenedor'' of
        Inl e \<Rightarrow> (Inl e, w)
      | Inr pos_inicial_contenedor \<Rightarrow>
     (case getitem lista_transformaciones ''tapa'' of
        Inl e \<Rightarrow> (Inl e, w)
      | Inr pos_inicial_tapa \<Rightarrow>
          bucle contenedor tapa
            (traslacion_inicial pos_inicial_contenedor)
            (traslacion_destino pos_inicial_contenedor)
            pos_inicial_tapa n_pasos [0..n_pasos - 1] w))))"

subsection \<open>The main program of \<^verbatim>\<open>second.py\<close>\<close>

text \<open>
  \<^verbatim>\<open>posiciones\<close>: the placement of each part relative to its parent, a dictionary
  literal of seven translations ("Posiciones relativas segun la tabla").
\<close>

definition posiciones :: "string \<rightharpoonup> mat4" where
  "posiciones =
     [''camion'' \<mapsto> create_translation_matrix 0.0 0.0 0.0,
      ''empujador'' \<mapsto> create_translation_matrix (-0.075283) 0.73129 (-0.19924),
      ''deslizadera'' \<mapsto> create_translation_matrix (-0.2416) 2.2309 0.19993,
      ''brazo1'' \<mapsto> create_translation_matrix 0.0 (-0.8463) 0.07907,
      ''brazo2'' \<mapsto> create_translation_matrix 0.0 (-0.81879) 0.0,
      ''contenedor'' \<mapsto> create_translation_matrix (-0.17888) 0.83539 0.98371086,
      ''tapa'' \<mapsto> create_translation_matrix (-0.03811) 0.0 0.0]"

text \<open>
  \<^verbatim>\<open>a @ b\<close> where either operand may raise: the left operand is evaluated first.
  A chain \<^verbatim>\<open>a @ b @ c\<close> associates to the left.
\<close>

fun por :: "error + mat4 \<Rightarrow> error + mat4 \<Rightarrow> error + mat4" where
  "por (Inl e) b = Inl e"
| "por (Inr A) (Inl e) = Inl e"
| "por (Inr A) (Inr B) = Inr (matmul A B)"

text \<open>A dictionary literal: the values are evaluated in order, the first exception wins.\<close>

fun dict_lit :: "(string \<rightharpoonup> 'a) \<Rightarrow> (string \<times> (error + 'a)) list \<Rightarrow> error + (string \<rightharpoonup> 'a)" where
  "dict_lit d [] = Inr d"
| "dict_lit d ((k, Inl e) # rest) = Inl e"
| "dict_lit d ((k, Inr v) # rest) = dict_lit (d(k \<mapsto> v)) rest"

text \<open>
  \<^verbatim>\<open>transformaciones\<close>: the absolute placement of each part, as the source multiplies
  it out by hand from \<^verbatim>\<open>posiciones\<close>. The dictionary read is a parameter here, so
  that the same products can be taken of other relative placements.
\<close>

definition transformaciones :: "(string \<rightharpoonup> mat4) \<Rightarrow> error + (string \<rightharpoonup> mat4)" where
  "transformaciones pos =
     dict_lit Map.empty
       [(''camion'', getitem pos ''camion''),
        (''empujador'', por (getitem pos ''camion'') (getitem pos ''empujador'')),
        (''deslizadera'', por (getitem pos ''camion'') (getitem pos ''deslizadera'')),
        (''brazo1'', por (por (getitem pos ''camion'') (getitem pos ''deslizadera''))
                         (getitem pos ''brazo1'')),
        (''brazo2'', por (por (por (getitem pos ''camion'') (getitem pos ''deslizadera''))
                              (getitem pos ''brazo1''))
                         (getitem pos ''brazo2'')),
        (''contenedor'', getitem pos ''contenedor''),
        (''tapa'', por (getitem pos ''contenedor'') (getitem pos ''tapa''))]"

text \<open>\<^verbatim>\<open>colores\<close>: one RGB triple for each part.\<close>

definition colores :: "string \<rightharpoonup> vec3" where
  "colores =
     [''camion'' \<mapsto> (0.5, 0.5, 0.5),
      ''empujador'' \<mapsto> (1, 0, 0),
      ''deslizadera'' \<mapsto> (0, 1, 0),
      ''brazo1'' \<mapsto> (0, 0, 1),
      ''brazo2'' \<mapsto> (1, 1, 0),
      ''contenedor'' \<mapsto> (1, 0, 1),
      ''tapa'' \<mapsto> (0, 1, 1)]"

text \<open>
  The static scene: \<^verbatim>\<open>for nombre, malla in piezas.items()\<close>, over the items of the
  dictionary in insertion order. Each mesh is copied, the copy is transformed and plotted.
\<close>

fun mostrar_piezas ::
  "(string \<times> addr) list \<Rightarrow> (string \<rightharpoonup> mat4) \<Rightarrow> world \<Rightarrow> (error + unit) \<times> world" where
  "mostrar_piezas [] tr w = (Inr (), w)"
| "mostrar_piezas ((nombre, malla) # resto) tr w =
     (let (malla_copiada, w1) = deepcopy malla w
      in (case getitem tr nombre of
            Inl e \<Rightarrow> (Inl e, w1)
          | Inr matrix \<Rightarrow>
              (let w2 = transform malla_copiada matrix w1
               in (case getitem colores nombre of
                     Inl e \<Rightarrow> (Inl e, w2)
                   | Inr color \<Rightarrow> mostrar_piezas resto tr (mesh_plot malla_copiada w2)))))"

text \<open>
  The program, from the loaded meshes on. \<^verbatim>\<open>piezas\<close> is the dictionary of the seven
  meshes that \<^verbatim>\<open>load_stl\<close> has read; its items, in insertion order and with distinct
  keys, are a parameter, and the objects they refer to are in the store.
\<close>

definition main :: "(string \<times> addr) list \<Rightarrow> world \<Rightarrow> (error + unit) \<times> world" where
  "main piezas w =
     (case transformaciones posiciones of
        Inl e \<Rightarrow> (Inl e, w)
      | Inr tr \<Rightarrow>
          (case mostrar_piezas piezas tr w of
             (Inl e, w') \<Rightarrow> (Inl e, w')
           | (Inr u, w') \<Rightarrow> mover_cubo (map_of piezas) tr 100 w'))"

subsection \<open>Vocabulary of the specification\<close>

text \<open>
  The specification writes \<open>compose(A, B)\<close> for "\<open>B \<cdot> A\<close> (apply A first, in local
  space, then B)". The scripts have no function of that name: they write the product out
  as \<^verbatim>\<open>B @ A\<close>. \<open>compose\<close> is that product with the operands in the
  specification's order, so that its sentences can be stated as they are written.
\<close>

definition compose :: "mat4 \<Rightarrow> mat4 \<Rightarrow> mat4" where
  "compose A B = matmul B A"

text \<open>
  The parts of a homogeneous matrix: the bottom row \<^verbatim>\<open>matrix[3, :]\<close> and the
  upper-left block \<^verbatim>\<open>matrix[0:3, 0:3]\<close>; \<open>identity3\<close> is the block of a matrix that
  does not rotate.
\<close>

type_synonym mat3 = "vec3 \<times> vec3 \<times> vec3"

fun bottom_row :: "mat4 \<Rightarrow> vec4" where
  "bottom_row (r0, r1, r2, r3) = r3"

fun block3 :: "mat4 \<Rightarrow> mat3" where
  "block3 ((m00, m01, m02, m03),
           (m10, m11, m12, m13),
           (m20, m21, m22, m23),
           (m30, m31, m32, m33)) =
     ((m00, m01, m02),
      (m10, m11, m12),
      (m20, m21, m22))"

definition identity3 :: mat3 where
  "identity3 = ((1, 0, 0),
                (0, 1, 0),
                (0, 0, 1))"

text \<open>
  What one pass of the loop is expected to hand to \<^verbatim>\<open>paint\<close> when it starts from
  the container mesh \<open>malla_contenedor\<close> and the lid mesh \<open>malla_tapa\<close>: both meshes
  moved by the matrices of step \<open>paso\<close>.
\<close>

definition fotograma :: "vec3 \<Rightarrow> vec3 \<Rightarrow> mat4 \<Rightarrow> int \<Rightarrow> mesh \<Rightarrow> mesh \<Rightarrow> int \<Rightarrow> mesh list" where
  "fotograma inicial destino pos_inicial_tapa n_pasos malla_contenedor malla_tapa paso =
     (let t = real_of_int paso / real_of_int (n_pasos - 1)
      in [map (apply_point (transformacion_actual inicial destino t)) malla_contenedor,
          map (apply_point (transformacion_tapa inicial destino pos_inicial_tapa t)) malla_tapa])"

subsection \<open>Concrete inputs\<close>

text \<open>
  The dictionary \<^verbatim>\<open>transformaciones\<close> of the program itself, built from its own
  \<^verbatim>\<open>posiciones\<close>.
\<close>

definition absolutas :: "string \<rightharpoonup> mat4" where
  "absolutas = (case transformaciones posiciones of Inl e \<Rightarrow> Map.empty | Inr tr \<Rightarrow> tr)"

text \<open>
  The STL files are not part of the repository. For running the program, each of the
  seven parts gets the same one-triangle mesh, at the addresses 0 to 6 in the order of
  the dictionary \<^verbatim>\<open>piezas\<close>.
\<close>

definition triangulo :: mesh where
  "triangulo = [(0, 0, 0), (1, 0, 0), (0, 1, 0)]"

definition piezas_ejemplo :: "(string \<times> addr) list" where
  "piezas_ejemplo =
     [(''camion'', 0), (''empujador'', 1), (''deslizadera'', 2), (''brazo1'', 3),
      (''brazo2'', 4), (''contenedor'', 5), (''tapa'', 6)]"

definition mundo_ejemplo :: world where
  "mundo_ejemplo =
     \<lparr>heap = (\<lambda>a. if a < 7 then triangulo else []), next_addr = 7, plotted = [], painted = []\<rparr>"

text \<open>
  A chain root, mid, leaf in the places of \<^verbatim>\<open>camion\<close>, \<^verbatim>\<open>deslizadera\<close> and
  \<^verbatim>\<open>brazo1\<close>, with the relative translations (1,0,0), (0,1,0) and (0,0,1); the other
  four parts sit at the origin.
\<close>

definition cadena_ejemplo :: "string \<rightharpoonup> mat4" where
  "cadena_ejemplo =
     [''camion'' \<mapsto> create_translation_matrix 1 0 0,
      ''empujador'' \<mapsto> create_translation_matrix 0 0 0,
      ''deslizadera'' \<mapsto> create_translation_matrix 0 1 0,
      ''brazo1'' \<mapsto> create_translation_matrix 0 0 1,
      ''brazo2'' \<mapsto> create_translation_matrix 0 0 0,
      ''contenedor'' \<mapsto> create_translation_matrix 0 0 0,
      ''tapa'' \<mapsto> create_translation_matrix 0 0 0]"

section \<open>Matrix algebra\<close>

lemma matmul_assoc: "matmul (matmul A B) C = matmul A (matmul B C)"
  by (cases A rule: col0.cases; cases B rule: col0.cases; cases C rule: col0.cases)
     (simp add: row_times_def algebra_simps)

lemma matmul_identity4_left: "matmul identity4 T = T"
  by (cases T rule: col0.cases) (simp add: identity4_def row_times_def)

lemma matmul_identity4_right: "matmul T identity4 = T"
  by (cases T rule: col0.cases) (simp add: identity4_def row_times_def)

lemma apply_point_matmul:
  "bottom_row B = (0, 0, 0, 1) \<Longrightarrow> apply_point (matmul A B) p = apply_point A (apply_point B p)"
  by (cases A rule: col0.cases; cases B rule: col0.cases; cases p)
     (simp add: row_times_def algebra_simps)

lemma bottom_row_matmul:
  "bottom_row A = (0, 0, 0, 1) \<Longrightarrow> bottom_row B = (0, 0, 0, 1) \<Longrightarrow> bottom_row (matmul A B) = (0, 0, 0, 1)"
  by (cases A rule: col0.cases; cases B rule: col0.cases) (simp add: row_times_def)

section \<open>The animation loop\<close>

lemma paso_heap:
  "a < next_addr w \<Longrightarrow> heap (snd (paso_mover_cubo c tp ini dest Pt n paso w)) a = heap w a"
  by (simp add: paso_mover_cubo_def truediv_def deepcopy_def transform_def paint_def Let_def)

lemma paso_next:
  "next_addr w \<le> next_addr (snd (paso_mover_cubo c tp ini dest Pt n paso w))"
  by (simp add: paso_mover_cubo_def truediv_def deepcopy_def transform_def paint_def Let_def)

lemma paso_plotted:
  "plotted (snd (paso_mover_cubo c tp ini dest Pt n paso w)) = plotted w"
  by (simp add: paso_mover_cubo_def truediv_def deepcopy_def transform_def paint_def Let_def)

lemma paso_zero_division:
  "paso_mover_cubo c tp ini dest Pt 1 paso w = (Inl ZeroDivisionError, w)"
  by (simp add: paso_mover_cubo_def truediv_def)

lemma paso_fst:
  "n \<noteq> 1 \<Longrightarrow> fst (paso_mover_cubo c tp ini dest Pt n paso w) = Inr ()"
  by (simp add: paso_mover_cubo_def truediv_def deepcopy_def transform_def paint_def Let_def)

lemma paso_painted:
  "n \<noteq> 1 \<Longrightarrow> c < next_addr w \<Longrightarrow> tp < next_addr w \<Longrightarrow>
   painted (snd (paso_mover_cubo c tp ini dest Pt n paso w)) =
     painted w @ [fotograma ini dest Pt n (heap w c) (heap w tp) paso]"
  by (simp add: paso_mover_cubo_def truediv_def deepcopy_def transform_def paint_def Let_def fotograma_def)

lemma bucle_heap:
  "a < next_addr w \<Longrightarrow> heap (snd (bucle c tp ini dest Pt n ps w)) a = heap w a"
proof (induction ps arbitrary: w)
  case Nil
  then show ?case by simp
next
  case (Cons paso ps)
  obtain r w' where step: "paso_mover_cubo c tp ini dest Pt n paso w = (r, w')"
    by (cases "paso_mover_cubo c tp ini dest Pt n paso w")
  have h: "heap w' a = heap w a" and nx: "next_addr w \<le> next_addr w'"
    using paso_heap[OF Cons.prems, of c tp ini dest Pt n paso] paso_next[of w c tp ini dest Pt n paso] step
    by simp_all
  show ?case
  proof (cases r)
    case (Inl e)
    with step h show ?thesis by simp
  next
    case (Inr u)
    have "a < next_addr w'" using Cons.prems nx by simp
    from Cons.IH[OF this] step Inr h show ?thesis by simp
  qed
qed

lemma bucle_next:
  "next_addr w \<le> next_addr (snd (bucle c tp ini dest Pt n ps w))"
proof (induction ps arbitrary: w)
  case Nil
  then show ?case by simp
next
  case (Cons paso ps)
  obtain r w' where step: "paso_mover_cubo c tp ini dest Pt n paso w = (r, w')"
    by (cases "paso_mover_cubo c tp ini dest Pt n paso w")
  have nx: "next_addr w \<le> next_addr w'"
    using paso_next[of w c tp ini dest Pt n paso] step by simp
  show ?case
  proof (cases r)
    case (Inl e)
    with step nx show ?thesis by simp
  next
    case (Inr u)
    from Cons.IH[of w'] step Inr nx show ?thesis by simp
  qed
qed

lemma bucle_plotted:
  "plotted (snd (bucle c tp ini dest Pt n ps w)) = plotted w"
proof (induction ps arbitrary: w)
  case Nil
  then show ?case by simp
next
  case (Cons paso ps)
  obtain r w' where step: "paso_mover_cubo c tp ini dest Pt n paso w = (r, w')"
    by (cases "paso_mover_cubo c tp ini dest Pt n paso w")
  have nx: "plotted w' = plotted w"
    using paso_plotted[of c tp ini dest Pt n paso w] step by simp
  show ?case
  proof (cases r)
    case (Inl e)
    with step nx show ?thesis by simp
  next
    case (Inr u)
    from Cons.IH[of w'] step Inr nx show ?thesis by simp
  qed
qed

lemma bucle_ok:
  assumes "n \<noteq> 1" "c < next_addr w" "tp < next_addr w"
  shows "fst (bucle c tp ini dest Pt n ps w) = Inr () \<and>
         painted (snd (bucle c tp ini dest Pt n ps w)) =
           painted w @ map (fotograma ini dest Pt n (heap w c) (heap w tp)) ps"
  using assms(2,3)
proof (induction ps arbitrary: w)
  case Nil
  then show ?case by simp
next
  case (Cons paso ps)
  obtain r w' where step: "paso_mover_cubo c tp ini dest Pt n paso w = (r, w')"
    by (cases "paso_mover_cubo c tp ini dest Pt n paso w")
  have r: "r = Inr ()"
    using paso_fst[OF assms(1), of c tp ini dest Pt paso w] step by simp
  have nx: "next_addr w \<le> next_addr w'"
    using paso_next[of w c tp ini dest Pt n paso] step by simp
  have hc: "heap w' c = heap w c"
    using paso_heap[OF Cons.prems(1), of c tp ini dest Pt n paso] step by simp
  have ht: "heap w' tp = heap w tp"
    using paso_heap[OF Cons.prems(2), of c tp ini dest Pt n paso] step by simp
  have p: "painted w' = painted w @ [fotograma ini dest Pt n (heap w c) (heap w tp) paso]"
    using paso_painted[OF assms(1) Cons.prems, of ini dest Pt paso] step by simp
  have "c < next_addr w'" "tp < next_addr w'"
    using Cons.prems nx by simp_all
  from Cons.IH[OF this] step r hc ht p show ?case by simp
qed

lemma traslacion_actual_0: "traslacion_actual inicial destino 0 = inicial"
  by (cases inicial; cases destino) (simp add: traslacion_actual_def)

lemma traslacion_actual_1: "traslacion_actual inicial destino 1 = destino"
  by (cases inicial; cases destino) (simp add: traslacion_actual_def)

lemma paso_painted_length:
  "n \<noteq> 1 \<Longrightarrow>
   length (painted (snd (paso_mover_cubo c tp ini dest Pt n paso w))) = Suc (length (painted w))"
  by (simp add: paso_mover_cubo_def truediv_def deepcopy_def transform_def paint_def Let_def)

lemma bucle_count:
  assumes "n \<noteq> 1"
  shows "fst (bucle c tp ini dest Pt n ps w) = Inr () \<and>
         length (painted (snd (bucle c tp ini dest Pt n ps w))) = length (painted w) + length ps"
proof (induction ps arbitrary: w)
  case Nil
  then show ?case by simp
next
  case (Cons paso ps)
  obtain r w' where step: "paso_mover_cubo c tp ini dest Pt n paso w = (r, w')"
    by (cases "paso_mover_cubo c tp ini dest Pt n paso w")
  have r: "r = Inr ()"
    using paso_fst[OF assms, of c tp ini dest Pt paso w] step by simp
  have l: "length (painted w') = Suc (length (painted w))"
    using paso_painted_length[OF assms, of c tp ini dest Pt paso w] step by simp
  from Cons.IH[of w'] step r l show ?case by simp
qed

lemma mover_cubo_bucle:
  assumes "lista_piezas ''contenedor'' = Some c" "lista_piezas ''tapa'' = Some tp"
    "lista_transformaciones ''contenedor'' = Some Pc" "lista_transformaciones ''tapa'' = Some Pt"
  shows "mover_cubo lista_piezas lista_transformaciones n w =
           bucle c tp (traslacion_inicial Pc) (traslacion_destino Pc) Pt n [0..n - 1] w"
  using assms by (simp add: mover_cubo_def getitem_def)

lemma piezas_ejemplo_keys:
  "map_of piezas_ejemplo ''contenedor'' = Some 5" "map_of piezas_ejemplo ''tapa'' = Some 6"
  by (simp_all add: piezas_ejemplo_def)

section \<open>The main program\<close>

lemma transformaciones_all:
  assumes "pos ''camion'' = Some C" "pos ''empujador'' = Some E" "pos ''deslizadera'' = Some D"
    "pos ''brazo1'' = Some B1" "pos ''brazo2'' = Some B2" "pos ''contenedor'' = Some K"
    "pos ''tapa'' = Some L"
  shows "transformaciones pos =
     Inr [''camion'' \<mapsto> C,
          ''empujador'' \<mapsto> matmul C E,
          ''deslizadera'' \<mapsto> matmul C D,
          ''brazo1'' \<mapsto> matmul (matmul C D) B1,
          ''brazo2'' \<mapsto> matmul (matmul (matmul C D) B1) B2,
          ''contenedor'' \<mapsto> K,
          ''tapa'' \<mapsto> matmul K L]"
  using assms by (simp add: transformaciones_def getitem_def)

lemma transformaciones_posiciones: "transformaciones posiciones = Inr absolutas"
  by (simp add: absolutas_def transformaciones_def getitem_def posiciones_def)

lemma absolutas_tapa: "absolutas ''tapa'' = Some (create_translation_matrix (-0.21699) 0.83539 0.98371086)"
  by (simp add: absolutas_def transformaciones_def getitem_def posiciones_def create_translation_matrix_def identity4_def row_times_def)

lemma absolutas_contenedor: "absolutas ''contenedor'' = Some (create_translation_matrix (-0.17888) 0.83539 0.98371086)"
  by (simp add: absolutas_def transformaciones_def getitem_def posiciones_def)

lemma mostrar_heap:
  "a < next_addr w \<Longrightarrow> heap (snd (mostrar_piezas ps tr w)) a = heap w a"
proof (induction ps arbitrary: w)
  case Nil
  then show ?case by simp
next
  case (Cons x ps)
  obtain nombre malla where x: "x = (nombre, malla)" by (cases x)
  show ?case
  proof (cases "getitem tr nombre")
    case (Inl e)
    with x Cons.prems show ?thesis by (simp add: deepcopy_def)
  next
    case M: (Inr matrix)
    show ?thesis
    proof (cases "getitem colores nombre")
      case (Inl e)
      with x M Cons.prems show ?thesis by (simp add: deepcopy_def transform_def)
    next
      case (Inr color)
      let ?w' = "mesh_plot (next_addr w) (transform (next_addr w) matrix (snd (deepcopy malla w)))"
      have "a < next_addr ?w'" using Cons.prems by (simp add: deepcopy_def transform_def mesh_plot_def)
      from Cons.IH[OF this] have "heap (snd (mostrar_piezas ps tr ?w')) a = heap ?w' a" .
      moreover have "heap ?w' a = heap w a" using Cons.prems by (simp add: deepcopy_def transform_def mesh_plot_def)
      ultimately show ?thesis using x M Inr by (simp add: deepcopy_def)
    qed
  qed
qed

lemma mostrar_next:
  "next_addr w \<le> next_addr (snd (mostrar_piezas ps tr w))"
proof (induction ps arbitrary: w)
  case Nil
  then show ?case by simp
next
  case (Cons x ps)
  obtain nombre malla where x: "x = (nombre, malla)" by (cases x)
  show ?case
  proof (cases "getitem tr nombre")
    case (Inl e)
    with x show ?thesis by (simp add: deepcopy_def)
  next
    case M: (Inr matrix)
    show ?thesis
    proof (cases "getitem colores nombre")
      case (Inl e)
      with x M show ?thesis by (simp add: deepcopy_def transform_def)
    next
      case (Inr color)
      let ?w' = "mesh_plot (next_addr w) (transform (next_addr w) matrix (snd (deepcopy malla w)))"
      have "next_addr w \<le> next_addr ?w'" by (simp add: deepcopy_def transform_def mesh_plot_def)
      with Cons.IH[of ?w'] show ?thesis using x M Inr by (simp add: deepcopy_def)
    qed
  qed
qed

lemma mover_cubo_heap:
  "a < next_addr w \<Longrightarrow> heap (snd (mover_cubo lista_piezas lista_transformaciones n w)) a = heap w a"
  by (simp add: mover_cubo_def bucle_heap split: sum.splits)

lemma mover_cubo_next:
  "next_addr w \<le> next_addr (snd (mover_cubo lista_piezas lista_transformaciones n w))"
  by (simp add: mover_cubo_def bucle_next split: sum.splits)

lemma main_heap:
  "a < next_addr w \<Longrightarrow> heap (snd (main piezas w)) a = heap w a"
proof -
  assume a: "a < next_addr w"
  obtain r w' where m: "mostrar_piezas piezas absolutas w = (r, w')"
    by (cases "mostrar_piezas piezas absolutas w")
  have h: "heap w' a = heap w a" using mostrar_heap[OF a, of piezas absolutas] m by simp
  have "next_addr w \<le> next_addr w'" using mostrar_next[of w piezas absolutas] m by simp
  then have "a < next_addr w'" using a by simp
  from mover_cubo_heap[OF this] h m show ?thesis
    by (cases r) (simp_all add: main_def transformaciones_posiciones)
qed

lemma mover_cubo_painted:
  assumes "lista_piezas ''contenedor'' = Some c" "lista_piezas ''tapa'' = Some tp"
    "lista_transformaciones ''contenedor'' = Some Pc" "lista_transformaciones ''tapa'' = Some Pt"
    "n \<noteq> 1" "c < next_addr w" "tp < next_addr w"
  shows "painted (snd (mover_cubo lista_piezas lista_transformaciones n w)) =
           painted w @ map (fotograma (traslacion_inicial Pc) (traslacion_destino Pc) Pt n
                              (heap w c) (heap w tp)) [0..n - 1]"
  using mover_cubo_bucle[OF assms(1-4), of n w] bucle_ok[OF assms(5-7)] by simp

lemma mover_cubo_plotted:
  "plotted (snd (mover_cubo lista_piezas lista_transformaciones n w)) = plotted w"
  by (simp add: mover_cubo_def bucle_plotted split: sum.splits)

lemma mostrar_ok:
  assumes "\<forall>(nombre, a) \<in> set ps. a < next_addr w \<and> nombre \<in> dom tr \<and> nombre \<in> dom colores"
  shows "fst (mostrar_piezas ps tr w) = Inr ()
       \<and> plotted (snd (mostrar_piezas ps tr w)) =
           plotted w @ map (\<lambda>(nombre, a). map (apply_point (the (tr nombre))) (heap w a)) ps
       \<and> painted (snd (mostrar_piezas ps tr w)) = painted w"
  using assms
proof (induction ps arbitrary: w)
  case Nil
  then show ?case by simp
next
  case (Cons x ps)
  obtain nombre malla where x: "x = (nombre, malla)" by (cases x)
  from Cons.prems x obtain matrix color where
    M: "tr nombre = Some matrix" and K: "colores nombre = Some color" and m: "malla < next_addr w"
    by auto
  let ?w' = "mesh_plot (next_addr w) (transform (next_addr w) matrix (snd (deepcopy malla w)))"
  have step: "mostrar_piezas (x # ps) tr w = mostrar_piezas ps tr ?w'"
    using x M K by (simp add: getitem_def deepcopy_def)
  have pre: "\<forall>(nombre, a) \<in> set ps. a < next_addr ?w' \<and> nombre \<in> dom tr \<and> nombre \<in> dom colores"
    using Cons.prems by (auto simp: deepcopy_def transform_def mesh_plot_def)
  have same: "\<forall>(nombre, a) \<in> set ps. heap ?w' a = heap w a"
    using Cons.prems by (auto simp: deepcopy_def transform_def mesh_plot_def)
  then have maps: "map (\<lambda>(nombre, a). map (apply_point (the (tr nombre))) (heap ?w' a)) ps
      = map (\<lambda>(nombre, a). map (apply_point (the (tr nombre))) (heap w a)) ps"
    by (intro map_cong) auto
  have pl: "plotted ?w' = plotted w @ [map (apply_point matrix) (heap w malla)]"
    by (simp add: deepcopy_def transform_def mesh_plot_def)
  have pa: "painted ?w' = painted w"
    by (simp add: deepcopy_def transform_def mesh_plot_def)
  from Cons.IH[OF pre] step maps pl pa x M show ?case by simp
qed

lemma absolutas_dom: "dom absolutas = {''camion'', ''empujador'', ''deslizadera'', ''brazo1'', ''brazo2'', ''contenedor'', ''tapa''}"
  by (auto simp add: absolutas_def transformaciones_def getitem_def posiciones_def split: if_splits)

lemma colores_dom: "dom colores = {''camion'', ''empujador'', ''deslizadera'', ''brazo1'', ''brazo2'', ''contenedor'', ''tapa''}"
  by (auto simp add: colores_def split: if_splits)

lemma main_ejemplo:
  "fst (main piezas_ejemplo mundo_ejemplo) = Inr ()"
  "plotted (snd (main piezas_ejemplo mundo_ejemplo)) =
     map (\<lambda>(nombre, a). map (apply_point (the (absolutas nombre))) triangulo) piezas_ejemplo"
  "painted (snd (main piezas_ejemplo mundo_ejemplo)) =
     map (fotograma (traslacion_inicial (create_translation_matrix (-0.17888) 0.83539 0.98371086))
                    (traslacion_destino (create_translation_matrix (-0.17888) 0.83539 0.98371086))
                    (create_translation_matrix (-0.21699) 0.83539 0.98371086) 100 triangulo triangulo)
         [0..99]"
proof -
  have pre: "\<forall>(nombre, a) \<in> set piezas_ejemplo. a < next_addr mundo_ejemplo \<and> nombre \<in> dom absolutas \<and> nombre \<in> dom colores"
    by (simp add: absolutas_dom colores_dom piezas_ejemplo_def mundo_ejemplo_def)
  obtain r w' where m: "mostrar_piezas piezas_ejemplo absolutas mundo_ejemplo = (r, w')"
    by (cases "mostrar_piezas piezas_ejemplo absolutas mundo_ejemplo")
  from mostrar_ok[OF pre] m have r: "r = Inr ()"
    and pl: "plotted w' = map (\<lambda>(nombre, a). map (apply_point (the (absolutas nombre))) (heap mundo_ejemplo a)) piezas_ejemplo"
    and pa: "painted w' = []"
    by (simp_all add: mundo_ejemplo_def)
  have pl': "plotted w' = map (\<lambda>(nombre, a). map (apply_point (the (absolutas nombre))) triangulo) piezas_ejemplo"
    unfolding pl by (simp add: piezas_ejemplo_def mundo_ejemplo_def)
  have nx: "next_addr mundo_ejemplo \<le> next_addr w'"
    using mostrar_next[of mundo_ejemplo piezas_ejemplo absolutas] m by simp
  have h5: "heap w' 5 = triangulo" and h6: "heap w' 6 = triangulo"
    using mostrar_heap[of 5 mundo_ejemplo piezas_ejemplo absolutas]
          mostrar_heap[of 6 mundo_ejemplo piezas_ejemplo absolutas] m
    by (simp_all add: mundo_ejemplo_def)
  have lt: "5 < next_addr w'" "6 < next_addr w'" using nx by (simp_all add: mundo_ejemplo_def)
  have run: "main piezas_ejemplo mundo_ejemplo = mover_cubo (map_of piezas_ejemplo) absolutas 100 w'"
    using m r by (simp add: main_def transformaciones_posiciones)
  have n: "(100::int) \<noteq> 1" by simp
  show "fst (main piezas_ejemplo mundo_ejemplo) = Inr ()"
    unfolding run mover_cubo_bucle[OF piezas_ejemplo_keys absolutas_contenedor absolutas_tapa]
    using bucle_count[OF n] by simp
  show "plotted (snd (main piezas_ejemplo mundo_ejemplo)) =
     map (\<lambda>(nombre, a). map (apply_point (the (absolutas nombre))) triangulo) piezas_ejemplo"
    unfolding run by (simp add: mover_cubo_plotted pl')
  show "painted (snd (main piezas_ejemplo mundo_ejemplo)) =
     map (fotograma (traslacion_inicial (create_translation_matrix (-0.17888) 0.83539 0.98371086))
                    (traslacion_destino (create_translation_matrix (-0.17888) 0.83539 0.98371086))
                    (create_translation_matrix (-0.21699) 0.83539 0.98371086) 100 triangulo triangulo)
         [0..99]"
    unfolding run
    using mover_cubo_painted[OF piezas_ejemplo_keys absolutas_contenedor absolutas_tapa n lt]
    by (simp add: pa h5 h6)
qed

lemma upto_0_99: "[0..(99::int)] = 0 # [1..99]"
  by (simp add: upto.simps)

lemma fotograma_0:
  "fotograma (traslacion_inicial (create_translation_matrix (-0.17888) 0.83539 0.98371086))
             (traslacion_destino (create_translation_matrix (-0.17888) 0.83539 0.98371086))
             (create_translation_matrix (-0.21699) 0.83539 0.98371086) 100 triangulo triangulo 0
   = [map (apply_point (create_translation_matrix (-0.17888) 0.83539 0.98371086)) triangulo,
      map (apply_point (create_translation_matrix (-0.39587) 1.67078 1.96742172)) triangulo]"
  by (simp add: fotograma_def transformacion_tapa_def transformacion_actual_def matriz_traslacion_def
        matriz_rotacion_def angulo_actual_def traslacion_actual_def traslacion_inicial_def
        traslacion_destino_def create_translation_matrix_def create_rotation_matrix_def
        identity4_def row_times_def Let_def)

lemma cadena_ejemplo_keys:
  "cadena_ejemplo ''camion'' = Some (create_translation_matrix 1 0 0)"
  "cadena_ejemplo ''empujador'' = Some (create_translation_matrix 0 0 0)"
  "cadena_ejemplo ''deslizadera'' = Some (create_translation_matrix 0 1 0)"
  "cadena_ejemplo ''brazo1'' = Some (create_translation_matrix 0 0 1)"
  "cadena_ejemplo ''brazo2'' = Some (create_translation_matrix 0 0 0)"
  "cadena_ejemplo ''contenedor'' = Some (create_translation_matrix 0 0 0)"
  "cadena_ejemplo ''tapa'' = Some (create_translation_matrix 0 0 0)"
  by (simp_all add: cadena_ejemplo_def)

lemma parametros_sorted:
  assumes "2 \<le> n"
  shows "sorted_wrt (<) (map (\<lambda>paso. real_of_int paso / real_of_int (n - 1)) [0..n - 1])"
proof -
  have "sorted_wrt (\<lambda>x y. real_of_int x / real_of_int (n - 1) < real_of_int y / real_of_int (n - 1)) [0..n - 1]"
  proof (rule sorted_wrt_mono_rel[of _ "(<)"])
    show "sorted_wrt (<) [0..n - 1]" by simp
  next
    fix x y :: int
    assume "x < y"
    then show "real_of_int x / real_of_int (n - 1) < real_of_int y / real_of_int (n - 1)"
      using assms by (simp add: divide_strict_right_mono)
  qed
  then show ?thesis by (simp add: sorted_wrt_map)
qed

lemma parametros_range:
  assumes "2 \<le> n"
  shows "\<forall>t \<in> set (map (\<lambda>paso. real_of_int paso / real_of_int (n - 1)) [0..n - 1]). 0 \<le> t \<and> t \<le> 1"
  using assms by auto

lemma parametros_ends:
  assumes "2 \<le> n"
  shows "[0..n - 1] = 0 # [1..n - 1]" "[0..n - 1] = [0..n - 1 - 1] @ [n - 1]"
    "hd (map (\<lambda>paso. real_of_int paso / real_of_int (n - 1)) [0..n - 1]) = 0"
    "last (map (\<lambda>paso. real_of_int paso / real_of_int (n - 1)) [0..n - 1]) = 1"
proof -
  show a: "[0..n - 1] = 0 # [1..n - 1]" using assms by (simp add: upto_rec1)
  show b: "[0..n - 1] = [0..n - 1 - 1] @ [n - 1]" using assms by (simp add: upto_rec2)
  show "hd (map (\<lambda>paso. real_of_int paso / real_of_int (n - 1)) [0..n - 1]) = 0"
    by (subst a) simp
  show "last (map (\<lambda>paso. real_of_int paso / real_of_int (n - 1)) [0..n - 1]) = 1"
    using assms by (subst b) simp
qed

lemma transformacion_actual_parts:
  "get_0_3__3 (transformacion_actual inicial destino t) = traslacion_actual inicial destino t"
  "block3 (transformacion_actual inicial destino t) = block3 (create_rotation_matrix ''z'' (t * radians 90))"
  by (cases "traslacion_actual inicial destino t";
      simp add: transformacion_actual_def matriz_rotacion_def angulo_actual_def
       matriz_traslacion_def create_translation_matrix_def create_rotation_matrix_def identity4_def
       row_times_def Let_def)+

lemma block3_rotation_0: "block3 (create_rotation_matrix ''z'' 0) = identity3"
  by (simp add: create_rotation_matrix_def identity4_def identity3_def Let_def)

lemma mundo_ejemplo_allocated: "5 < next_addr mundo_ejemplo" "6 < next_addr mundo_ejemplo"
  by (simp_all add: mundo_ejemplo_def)

lemma mundo_ejemplo_fields:
  "heap mundo_ejemplo 5 = triangulo" "heap mundo_ejemplo 6 = triangulo"
  "painted mundo_ejemplo = []"
  by (simp_all add: mundo_ejemplo_def)

lemma upto_0_2: "[0..(2::int)] = [0, 1, 2]"
  by (simp add: upto.simps)

section \<open>The claims\<close>

subsection \<open>The constructors and the product\<close>

text \<open>
  Claim C10. \<^verbatim>\<open>create_rotation_matrix(axis, angle)\<close> raises for no string: for an
  axis other than \<^verbatim>\<open>'x'\<close>, \<^verbatim>\<open>'y'\<close> and \<^verbatim>\<open>'z'\<close> none of the three tests
  succeeds and the function returns the identity matrix, whatever the angle. The function
  is the same in both scripts.
\<close>

theorem rotation_unknown_axis_identity:
  "axis \<notin> {''x'', ''y'', ''z''} \<Longrightarrow> create_rotation_matrix axis angle = identity4"
  by (simp add: create_rotation_matrix_def)

theorem rotation_unknown_axis_identity_witness:
  "''w'' \<notin> {''x'', ''y'', ''z''} \<and> create_rotation_matrix ''w'' (pi / 3) = identity4"
  using rotation_unknown_axis_identity [of "''w''" "pi / 3"] by simp

text \<open>
  Claim C7. The identity matrix is neutral on both sides of the composition, and a
  rotation by the angle 0 about each of the three axes is the identity matrix.
\<close>

theorem identity_neutral:
  "compose identity4 T = T \<and> compose T identity4 = T
   \<and> matmul identity4 T = T \<and> matmul T identity4 = T
   \<and> create_rotation_matrix ''x'' 0 = identity4
   \<and> create_rotation_matrix ''y'' 0 = identity4
   \<and> create_rotation_matrix ''z'' 0 = identity4"
proof -
  have "create_rotation_matrix axis 0 = identity4" for axis
    by (simp add: create_rotation_matrix_def identity4_def Let_def)
  then show ?thesis
    by (simp add: compose_def matmul_identity4_left matmul_identity4_right)
qed

text \<open>
  Claim C8. Composition is associative, in exact arithmetic. Since \<open>compose A B\<close> is
  \<^verbatim>\<open>B @ A\<close>, this is the associativity of the matrix product, stated here for both.
\<close>

theorem compose_associative:
  "compose (compose A B) C = compose A (compose B C)
   \<and> matmul (matmul A B) C = matmul A (matmul B C)"
  by (simp add: compose_def matmul_assoc)

subsection \<open>The steps of the animation\<close>

text \<open>
  Claim C4. At every interpolation parameter \<open>t\<close> the step transform is
  \<^verbatim>\<open>matriz_traslacion @ matriz_rotacion\<close>, that is the composition of the rotation
  about z by \<open>t\<close> times 90 degrees, applied first, with the translation by the
  interpolated vector, applied second: a vertex is rotated about the z axis through the
  origin and then moved. The translation column of the step transform is the interpolated
  translation itself, and its 3x3 block is that of the rotation alone.
\<close>

theorem step_transform_rotate_then_translate:
  "transformacion_actual inicial destino t =
      compose (create_rotation_matrix ''z'' (t * radians 90))
              (matriz_traslacion inicial destino t)
   \<and> transformacion_actual inicial destino t =
      matmul (matriz_traslacion inicial destino t)
             (create_rotation_matrix ''z'' (t * radians 90))
   \<and> get_0_3__3 (matriz_traslacion inicial destino t) = traslacion_actual inicial destino t
   \<and> block3 (matriz_traslacion inicial destino t) = identity3
   \<and> get_0_3__3 (transformacion_actual inicial destino t) = traslacion_actual inicial destino t
   \<and> block3 (transformacion_actual inicial destino t) = block3 (create_rotation_matrix ''z'' (t * radians 90))
   \<and> apply_point (transformacion_actual inicial destino t) p =
       vadd (apply_point (create_rotation_matrix ''z'' (t * radians 90)) p)
            (traslacion_actual inicial destino t)
   \<and> get_0_3__3 (matmul (create_translation_matrix tx ty tz) (create_rotation_matrix axis angle))
       = (tx, ty, tz)"
proof -
  have step: "transformacion_actual inicial destino t =
      compose (create_rotation_matrix ''z'' (t * radians 90))
              (matriz_traslacion inicial destino t)
   \<and> transformacion_actual inicial destino t =
      matmul (matriz_traslacion inicial destino t)
             (create_rotation_matrix ''z'' (t * radians 90))
   \<and> get_0_3__3 (matriz_traslacion inicial destino t) = traslacion_actual inicial destino t
   \<and> block3 (matriz_traslacion inicial destino t) = identity3
   \<and> get_0_3__3 (transformacion_actual inicial destino t) = traslacion_actual inicial destino t
   \<and> block3 (transformacion_actual inicial destino t) = block3 (create_rotation_matrix ''z'' (t * radians 90))
   \<and> apply_point (transformacion_actual inicial destino t) p =
       vadd (apply_point (create_rotation_matrix ''z'' (t * radians 90)) p)
            (traslacion_actual inicial destino t)"
    by (cases "traslacion_actual inicial destino t"; cases p)
       (simp add: transformacion_actual_def compose_def matriz_rotacion_def angulo_actual_def
         matriz_traslacion_def create_translation_matrix_def create_rotation_matrix_def identity4_def
         identity3_def row_times_def Let_def)
  have any_angle:
    "get_0_3__3 (matmul (create_translation_matrix tx ty tz) (create_rotation_matrix axis angle))
       = (tx, ty, tz)"
    by (simp add: create_translation_matrix_def create_rotation_matrix_def identity4_def
          row_times_def Let_def)
  from step any_angle show ?thesis by blast
qed

text \<open>
  Claim C3. A run of \<^verbatim>\<open>mover_cubo\<close> with \<open>n_pasos \<ge> 2\<close>, on dictionaries that hold
  both parts and both placements, raises nothing and paints one frame for each step, in
  the order of the steps. The frame of step \<open>paso\<close> is the pair of the original meshes
  moved by the matrices at the parameter \<open>t = paso / (n_pasos - 1)\<close>. Along the frames
  these parameters are strictly increasing and lie within \<open>[0, 1]\<close>; the first is 0 and
  the last is 1. So the first frame painted is the one at \<open>t = 0\<close>, whose step transform
  has the initial translation and no rotation (angle 0), and the last frame painted is the
  one at \<open>t = 1\<close>, whose step transform has the target translation and the rotation by
  the angle \<^verbatim>\<open>np.radians(90)\<close>.
\<close>

theorem animation_steps_span_unit_interval:
  assumes "lista_piezas ''contenedor'' = Some c" "lista_piezas ''tapa'' = Some tp"
    "lista_transformaciones ''contenedor'' = Some Pc" "lista_transformaciones ''tapa'' = Some Pt"
    "c < next_addr w" "tp < next_addr w" "2 \<le> n_pasos"
  shows
    "let inicial = traslacion_inicial Pc;
         destino = traslacion_destino Pc;
         ts = map (\<lambda>paso. real_of_int paso / real_of_int (n_pasos - 1)) [0..n_pasos - 1];
         cuadro = (\<lambda>t. [map (apply_point (transformacion_actual inicial destino t)) (heap w c),
                        map (apply_point (transformacion_tapa inicial destino Pt t)) (heap w tp)]);
         w' = snd (mover_cubo lista_piezas lista_transformaciones n_pasos w)
     in fst (mover_cubo lista_piezas lista_transformaciones n_pasos w) = Inr ()
      \<and> painted w' = painted w @ map cuadro ts
      \<and> length ts = nat n_pasos
      \<and> sorted_wrt (<) ts
      \<and> (\<forall>t \<in> set ts. 0 \<le> t \<and> t \<le> 1)
      \<and> hd ts = 0 \<and> last ts = 1
      \<and> painted w' ! length (painted w) = cuadro 0
      \<and> last (painted w') = cuadro 1
      \<and> traslacion_actual inicial destino 0 = inicial
      \<and> angulo_actual 0 = 0
      \<and> get_0_3__3 (transformacion_actual inicial destino 0) = inicial
      \<and> block3 (transformacion_actual inicial destino 0) = identity3
      \<and> traslacion_actual inicial destino 1 = destino
      \<and> angulo_actual 1 = radians 90
      \<and> get_0_3__3 (transformacion_actual inicial destino 1) = destino
      \<and> block3 (transformacion_actual inicial destino 1)
          = block3 (create_rotation_matrix ''z'' (radians 90))"
proof -
  define inicial where "inicial = traslacion_inicial Pc"
  define destino where "destino = traslacion_destino Pc"
  define ts where "ts = map (\<lambda>paso. real_of_int paso / real_of_int (n_pasos - 1)) [0..n_pasos - 1]"
  define cuadro where "cuadro = (\<lambda>t. [map (apply_point (transformacion_actual inicial destino t)) (heap w c),
                        map (apply_point (transformacion_tapa inicial destino Pt t)) (heap w tp)])"
  define w' where "w' = snd (mover_cubo lista_piezas lista_transformaciones n_pasos w)"
  have n1: "n_pasos \<noteq> 1" using assms(7) by simp
  have ok: "fst (mover_cubo lista_piezas lista_transformaciones n_pasos w) = Inr ()"
    using mover_cubo_bucle[OF assms(1-4), of n_pasos w] bucle_count[OF n1] by simp
  have "map (fotograma inicial destino Pt n_pasos (heap w c) (heap w tp)) [0..n_pasos - 1] = map cuadro ts"
    by (simp add: fotograma_def cuadro_def ts_def Let_def)
  then have frames: "painted w' = painted w @ map cuadro ts"
    using mover_cubo_painted[OF assms(1-4) n1 assms(5,6)]
    by (simp add: w'_def inicial_def destino_def)
  have len: "length ts = nat n_pasos" using assms(7) by (simp add: ts_def)
  have srt: "sorted_wrt (<) ts" unfolding ts_def by (rule parametros_sorted[OF assms(7)])
  have rng: "\<forall>t \<in> set ts. 0 \<le> t \<and> t \<le> 1" unfolding ts_def by (rule parametros_range[OF assms(7)])
  have h: "hd ts = 0" and l: "last ts = 1"
    unfolding ts_def by (rule parametros_ends[OF assms(7)])+
  have ne: "ts \<noteq> []" using len assms(7) by auto
  have first: "painted w' ! length (painted w) = cuadro 0"
    using ne h by (simp add: frames nth_append hd_conv_nth)
  have lst: "last (painted w') = cuadro 1"
    using ne l by (simp add: frames last_map)
  have r0: "block3 (transformacion_actual inicial destino 0) = identity3"
    by (simp add: transformacion_actual_parts block3_rotation_0)
  show ?thesis
    unfolding Let_def
    unfolding inicial_def[symmetric] destino_def[symmetric] ts_def[symmetric]
    unfolding cuadro_def[symmetric] w'_def[symmetric]
    using ok frames len srt rng h l first lst r0
    by (simp add: traslacion_actual_0 traslacion_actual_1 angulo_actual_def transformacion_actual_parts
          cuadro_def)
qed

theorem animation_steps_span_unit_interval_witness:
  "map_of piezas_ejemplo ''contenedor'' = Some 5 \<and> map_of piezas_ejemplo ''tapa'' = Some 6
   \<and> 5 < next_addr mundo_ejemplo \<and> 6 < next_addr mundo_ejemplo \<and> (2::int) \<le> 3
   \<and> fst (mover_cubo (map_of piezas_ejemplo) absolutas 3 mundo_ejemplo) = Inr ()
   \<and> painted (snd (mover_cubo (map_of piezas_ejemplo) absolutas 3 mundo_ejemplo)) =
       map (\<lambda>t. [map (apply_point (transformacion_actual
                     (traslacion_inicial (create_translation_matrix (-0.17888) 0.83539 0.98371086))
                     (traslacion_destino (create_translation_matrix (-0.17888) 0.83539 0.98371086)) t))
                   triangulo,
                 map (apply_point (transformacion_tapa
                     (traslacion_inicial (create_translation_matrix (-0.17888) 0.83539 0.98371086))
                     (traslacion_destino (create_translation_matrix (-0.17888) 0.83539 0.98371086))
                     (create_translation_matrix (-0.21699) 0.83539 0.98371086) t))
                   triangulo])
           [0, 1 / 2, 1]"
proof -
  have n: "(2::int) \<le> 3" by simp
  show ?thesis
    using animation_steps_span_unit_interval
            [OF piezas_ejemplo_keys absolutas_contenedor absolutas_tapa mundo_ejemplo_allocated n]
    by (simp add: Let_def piezas_ejemplo_keys mundo_ejemplo_allocated mundo_ejemplo_fields upto_0_2)
qed

text \<open>
  Claim C5, as amended. The scripts define no \<open>InvalidPlanError\<close> and do not check
  \<^verbatim>\<open>n_pasos\<close>. With both parts and both placements present in the dictionaries,
  \<^verbatim>\<open>mover_cubo\<close> with \<open>n_pasos = 1\<close> raises \<open>ZeroDivisionError\<close> in the first pass of
  the loop, at \<^verbatim>\<open>paso / (n_pasos - 1)\<close>, before anything is copied or painted: the world
  is left as it was. With \<open>n_pasos \<ge> 2\<close> it raises nothing and paints exactly
  \<open>n_pasos\<close> frames.
\<close>

theorem one_step_plan_divides_by_zero:
  assumes "lista_piezas ''contenedor'' = Some c" "lista_piezas ''tapa'' = Some tp"
    "lista_transformaciones ''contenedor'' = Some Pc" "lista_transformaciones ''tapa'' = Some Pt"
  shows "mover_cubo lista_piezas lista_transformaciones 1 w = (Inl ZeroDivisionError, w)
       \<and> (2 \<le> n_pasos \<longrightarrow>
            fst (mover_cubo lista_piezas lista_transformaciones n_pasos w) = Inr ()
            \<and> length (painted (snd (mover_cubo lista_piezas lista_transformaciones n_pasos w)))
                = length (painted w) + nat n_pasos)"
proof -
  have one: "mover_cubo lista_piezas lista_transformaciones 1 w = (Inl ZeroDivisionError, w)"
    using mover_cubo_bucle[OF assms, of 1 w] by (simp add: paso_zero_division)
  have many: "fst (mover_cubo lista_piezas lista_transformaciones n_pasos w) = Inr ()
            \<and> length (painted (snd (mover_cubo lista_piezas lista_transformaciones n_pasos w)))
                = length (painted w) + nat n_pasos" if n: "2 \<le> n_pasos"
  proof -
    have "n_pasos \<noteq> 1" using n by simp
    from bucle_count[OF this, of c tp "traslacion_inicial Pc" "traslacion_destino Pc" Pt "[0..n_pasos - 1]" w]
    show ?thesis using n mover_cubo_bucle[OF assms, of n_pasos w] by simp
  qed
  from one many show ?thesis by simp
qed

theorem one_step_plan_divides_by_zero_witness:
  "map_of piezas_ejemplo ''contenedor'' = Some 5 \<and> map_of piezas_ejemplo ''tapa'' = Some 6
   \<and> (2::int) \<le> 100
   \<and> mover_cubo (map_of piezas_ejemplo) absolutas 1 mundo_ejemplo = (Inl ZeroDivisionError, mundo_ejemplo)
   \<and> fst (mover_cubo (map_of piezas_ejemplo) absolutas 100 mundo_ejemplo) = Inr ()
   \<and> length (painted (snd (mover_cubo (map_of piezas_ejemplo) absolutas 100 mundo_ejemplo))) = 100"
  using one_step_plan_divides_by_zero [OF piezas_ejemplo_keys absolutas_contenedor absolutas_tapa, of mundo_ejemplo 100]
  by (simp add: piezas_ejemplo_keys mundo_ejemplo_def)

text \<open>
  Claim C5 as the specification states it fails: on the program's own dictionaries the
  one-step run ends in \<open>ZeroDivisionError\<close>, which is not \<open>InvalidPlanError\<close>.
\<close>

theorem one_step_plan_not_invalid_plan_error:
  "fst (mover_cubo (map_of piezas_ejemplo) absolutas 1 mundo_ejemplo) = Inl ZeroDivisionError
   \<and> fst (mover_cubo (map_of piezas_ejemplo) absolutas 1 mundo_ejemplo) \<noteq> Inl InvalidPlanError"
proof -
  have "mover_cubo (map_of piezas_ejemplo) absolutas 1 mundo_ejemplo = (Inl ZeroDivisionError, mundo_ejemplo)"
    using mover_cubo_bucle[OF piezas_ejemplo_keys absolutas_contenedor absolutas_tapa, of 1 mundo_ejemplo]
    by (simp add: paso_zero_division)
  then show ?thesis by simp
qed

subsection \<open>The program as a whole\<close>

text \<open>
  Claim C2. The dictionary \<^verbatim>\<open>transformaciones\<close> holds, for each part, the product of
  the relative placements along its chain, from the root on the left to the part itself
  on the right: \<^verbatim>\<open>brazo2\<close> is
  \<^verbatim>\<open>camion @ deslizadera @ brazo1 @ brazo2\<close>. The root's matrix is the outermost:
  on a vertex the part's own placement acts first and the root's last (for placements
  with the bottom row \<open>[0, 0, 0, 1]\<close>, as all produced ones have). For the chain root,
  mid, leaf with the translations (1,0,0), (0,1,0) and (0,0,1) the leaf's matrix takes the
  origin to (1,1,1).
\<close>

theorem chain_resolution:
  assumes "pos ''camion'' = Some C" "pos ''empujador'' = Some E" "pos ''deslizadera'' = Some D"
    "pos ''brazo1'' = Some B1" "pos ''brazo2'' = Some B2" "pos ''contenedor'' = Some K"
    "pos ''tapa'' = Some L"
  shows "transformaciones pos =
           Inr [''camion'' \<mapsto> C,
                ''empujador'' \<mapsto> matmul C E,
                ''deslizadera'' \<mapsto> matmul C D,
                ''brazo1'' \<mapsto> matmul (matmul C D) B1,
                ''brazo2'' \<mapsto> matmul (matmul (matmul C D) B1) B2,
                ''contenedor'' \<mapsto> K,
                ''tapa'' \<mapsto> matmul K L]
       \<and> (bottom_row D = (0, 0, 0, 1) \<and> bottom_row B1 = (0, 0, 0, 1) \<and> bottom_row B2 = (0, 0, 0, 1) \<longrightarrow>
            apply_point (matmul (matmul (matmul C D) B1) B2) p =
              apply_point C (apply_point D (apply_point B1 (apply_point B2 p)))
          \<and> apply_point (matmul (matmul C D) B1) p =
              apply_point C (apply_point D (apply_point B1 p)))
       \<and> (C = create_translation_matrix 1 0 0 \<and> D = create_translation_matrix 0 1 0
          \<and> B1 = create_translation_matrix 0 0 1 \<longrightarrow>
            apply_point (matmul (matmul C D) B1) (0, 0, 0) = (1, 1, 1))"
proof -
  have order: "apply_point (matmul (matmul (matmul C D) B1) B2) p =
              apply_point C (apply_point D (apply_point B1 (apply_point B2 p)))
          \<and> apply_point (matmul (matmul C D) B1) p =
              apply_point C (apply_point D (apply_point B1 p))"
    if "bottom_row D = (0, 0, 0, 1)" "bottom_row B1 = (0, 0, 0, 1)" "bottom_row B2 = (0, 0, 0, 1)"
    using that by (simp add: matmul_assoc apply_point_matmul bottom_row_matmul)
  have chain: "apply_point (matmul (matmul (create_translation_matrix 1 0 0) (create_translation_matrix 0 1 0))
                 (create_translation_matrix 0 0 1)) (0, 0, 0) = (1, 1, 1)"
    by (simp add: create_translation_matrix_def identity4_def row_times_def)
  from transformaciones_all[OF assms] order chain show ?thesis by simp
qed

theorem chain_resolution_witness:
  "cadena_ejemplo ''camion'' = Some (create_translation_matrix 1 0 0)
   \<and> cadena_ejemplo ''deslizadera'' = Some (create_translation_matrix 0 1 0)
   \<and> cadena_ejemplo ''brazo1'' = Some (create_translation_matrix 0 0 1)
   \<and> bottom_row (create_translation_matrix 0 1 0) = (0, 0, 0, 1)
   \<and> map_option (\<lambda>M. apply_point M (0, 0, 0))
        (case transformaciones cadena_ejemplo of Inl e \<Rightarrow> None | Inr tr \<Rightarrow> tr ''brazo1'')
       = Some (1, 1, 1)"
  using chain_resolution [OF cadena_ejemplo_keys, of "(0, 0, 0)"]
  by (simp add: cadena_ejemplo_keys create_translation_matrix_def identity4_def)

text \<open>
  Claim C9. Showing a part never changes the stored mesh. Every write of the static
  scene, of \<^verbatim>\<open>mover_cubo\<close> and of the whole program goes to an object made by
  \<^verbatim>\<open>deepcopy\<close> in the same pass, so every object that existed before the call holds
  the same mesh after it, however many frames were painted and whether or not the call
  raised. And so every frame of the animation is the pair of the original meshes, as they
  were before the call, moved by the matrices of its step.

  The matrices are values in this model: the only writes into an array in the scripts are
  the slice assignments of the two constructors, on the identity matrix made in the same
  call, and the two dictionaries of matrices are only read.
\<close>

theorem originals_untouched:
  "a < next_addr w \<Longrightarrow>
     heap (snd (mostrar_piezas piezas tr w)) a = heap w a
     \<and> heap (snd (mover_cubo lista_piezas lista_transformaciones n_pasos w)) a = heap w a
     \<and> heap (snd (main piezas w)) a = heap w a
     \<and> (lista_piezas ''contenedor'' = Some c \<and> lista_piezas ''tapa'' = Some tp
        \<and> lista_transformaciones ''contenedor'' = Some Pc
        \<and> lista_transformaciones ''tapa'' = Some Pt
        \<and> n_pasos \<noteq> 1 \<and> c < next_addr w \<and> tp < next_addr w \<longrightarrow>
          painted (snd (mover_cubo lista_piezas lista_transformaciones n_pasos w)) =
            painted w @ map (fotograma (traslacion_inicial Pc) (traslacion_destino Pc) Pt n_pasos
                               (heap w c) (heap w tp)) [0..n_pasos - 1])"
  by (simp add: mostrar_heap mover_cubo_heap main_heap mover_cubo_painted)

theorem originals_untouched_witness:
  "5 < next_addr mundo_ejemplo
   \<and> map_of piezas_ejemplo ''contenedor'' = Some 5 \<and> map_of piezas_ejemplo ''tapa'' = Some 6
   \<and> (2::int) \<noteq> 1 \<and> 6 < next_addr mundo_ejemplo
   \<and> heap (snd (mostrar_piezas piezas_ejemplo absolutas mundo_ejemplo)) 5 = triangulo
   \<and> heap (snd (mover_cubo (map_of piezas_ejemplo) absolutas 2 mundo_ejemplo)) 5 = triangulo
   \<and> heap (snd (main piezas_ejemplo mundo_ejemplo)) 5 = triangulo
   \<and> length (painted (snd (mover_cubo (map_of piezas_ejemplo) absolutas 2 mundo_ejemplo))) = 2"
  using originals_untouched [of 5 mundo_ejemplo piezas_ejemplo absolutas "map_of piezas_ejemplo" absolutas 2 5 6
          "create_translation_matrix (-0.17888) 0.83539 0.98371086"
          "create_translation_matrix (-0.21699) 0.83539 0.98371086"]
  by (simp add: piezas_ejemplo_keys absolutas_contenedor absolutas_tapa mundo_ejemplo_def)

text \<open>
  Claim C1 does not hold of the program. \<^verbatim>\<open>mover_cubo\<close> multiplies the step transform
  with \<^verbatim>\<open>lista_transformaciones["tapa"]\<close>, and the program passes its dictionary
  \<^verbatim>\<open>transformaciones\<close>, in which the lid's entry is the absolute placement
  \<^verbatim>\<open>posiciones["contenedor"] @ posiciones["tapa"]\<close>, not the offset
  \<^verbatim>\<open>posiciones["tapa"]\<close> of the lid relative to the container. The container's
  translation is thereby applied twice to the lid.

  The run of the whole program on one-triangle meshes: it raises nothing; in the static
  scene the container (item 5) is placed by its translation \<open>c\<close> and the lid (item 6) by
  \<open>c + l\<close>; in the first frame of the animation, at \<open>t = 0\<close>, the container is again
  placed by \<open>c\<close> but the lid by \<open>2c + l\<close>. The step transform composed with the lid's
  relative offset would be the translation by \<open>c + l\<close>.
\<close>

theorem lid_placed_twice:
  "transformaciones posiciones = Inr absolutas
   \<and> fst (main piezas_ejemplo mundo_ejemplo) = Inr ()
   \<and> plotted (snd (main piezas_ejemplo mundo_ejemplo)) ! 5 =
       map (apply_point (create_translation_matrix (-0.17888) 0.83539 0.98371086)) triangulo
   \<and> plotted (snd (main piezas_ejemplo mundo_ejemplo)) ! 6 =
       map (apply_point (create_translation_matrix (-0.21699) 0.83539 0.98371086)) triangulo
   \<and> hd (painted (snd (main piezas_ejemplo mundo_ejemplo))) =
       [map (apply_point (create_translation_matrix (-0.17888) 0.83539 0.98371086)) triangulo,
        map (apply_point (create_translation_matrix (-0.39587) 1.67078 1.96742172)) triangulo]
   \<and> hd (hd (tl (hd (painted (snd (main piezas_ejemplo mundo_ejemplo)))))) = (-0.39587, 1.67078, 1.96742172)
   \<and> hd (plotted (snd (main piezas_ejemplo mundo_ejemplo)) ! 6) = (-0.21699, 0.83539, 0.98371086)
   \<and> posiciones ''tapa'' = Some (create_translation_matrix (-0.03811) 0.0 0.0)
   \<and> absolutas ''tapa'' = Some (create_translation_matrix (-0.21699) 0.83539 0.98371086)
   \<and> compose (create_translation_matrix (-0.03811) 0.0 0.0)
        (transformacion_actual
           (traslacion_inicial (create_translation_matrix (-0.17888) 0.83539 0.98371086))
           (traslacion_destino (create_translation_matrix (-0.17888) 0.83539 0.98371086)) 0)
       = create_translation_matrix (-0.21699) 0.83539 0.98371086
   \<and> transformacion_tapa
         (traslacion_inicial (create_translation_matrix (-0.17888) 0.83539 0.98371086))
         (traslacion_destino (create_translation_matrix (-0.17888) 0.83539 0.98371086))
         (create_translation_matrix (-0.21699) 0.83539 0.98371086) 0
       = create_translation_matrix (-0.39587) 1.67078 1.96742172"
proof -
  have pt: "posiciones ''tapa'' = Some (create_translation_matrix (-0.03811) 0.0 0.0)"
    by (simp add: posiciones_def)
  have claimed: "compose (create_translation_matrix (-0.03811) 0.0 0.0)
        (transformacion_actual
           (traslacion_inicial (create_translation_matrix (-0.17888) 0.83539 0.98371086))
           (traslacion_destino (create_translation_matrix (-0.17888) 0.83539 0.98371086)) 0)
       = create_translation_matrix (-0.21699) 0.83539 0.98371086"
    by (simp add: compose_def transformacion_actual_def matriz_traslacion_def
        matriz_rotacion_def angulo_actual_def traslacion_actual_def traslacion_inicial_def
        traslacion_destino_def create_translation_matrix_def create_rotation_matrix_def
        identity4_def row_times_def Let_def)
  have coded: "transformacion_tapa
         (traslacion_inicial (create_translation_matrix (-0.17888) 0.83539 0.98371086))
         (traslacion_destino (create_translation_matrix (-0.17888) 0.83539 0.98371086))
         (create_translation_matrix (-0.21699) 0.83539 0.98371086) 0
       = create_translation_matrix (-0.39587) 1.67078 1.96742172"
    by (simp add: transformacion_tapa_def transformacion_actual_def matriz_traslacion_def
        matriz_rotacion_def angulo_actual_def traslacion_actual_def traslacion_inicial_def
        traslacion_destino_def create_translation_matrix_def create_rotation_matrix_def
        identity4_def row_times_def Let_def)
  have p5: "plotted (snd (main piezas_ejemplo mundo_ejemplo)) ! 5 =
       map (apply_point (create_translation_matrix (-0.17888) 0.83539 0.98371086)) triangulo"
    unfolding main_ejemplo(2) by (simp add: piezas_ejemplo_def absolutas_contenedor)
  have p6: "plotted (snd (main piezas_ejemplo mundo_ejemplo)) ! 6 =
       map (apply_point (create_translation_matrix (-0.21699) 0.83539 0.98371086)) triangulo"
    unfolding main_ejemplo(2) by (simp add: piezas_ejemplo_def absolutas_tapa)
  have f0: "hd (painted (snd (main piezas_ejemplo mundo_ejemplo))) =
       [map (apply_point (create_translation_matrix (-0.17888) 0.83539 0.98371086)) triangulo,
        map (apply_point (create_translation_matrix (-0.39587) 1.67078 1.96742172)) triangulo]"
    unfolding main_ejemplo(3) upto_0_99 by (simp only: list.map list.sel fotograma_0)
  have v: "hd (map (apply_point (create_translation_matrix (-0.39587) 1.67078 1.96742172)) triangulo) = (-0.39587, 1.67078, 1.96742172)"
    "hd (map (apply_point (create_translation_matrix (-0.21699) 0.83539 0.98371086)) triangulo) = (-0.21699, 0.83539, 0.98371086)"
    by (simp_all add: triangulo_def create_translation_matrix_def identity4_def)
  show ?thesis
    using transformaciones_posiciones main_ejemplo(1) p5 p6 f0 v pt absolutas_tapa claimed coded
    by simp
qed

end
